theory Spec2Isabelle
  imports Complex_Main "HOL-Library.Sublist"
begin

section \<open>eBay Auto Specifics: the request handlers of \<^verbatim>\<open>server/main.py\<close>\<close>

text \<open>
  The server is one Flask module. It reads two environment variables, keeps one global
  (\<^verbatim>\<open>vision_client\<close>, set once while the module is loaded) and answers \<^verbatim>\<open>/analyze\<close> by three
  blocking calls in a row: \<^verbatim>\<open>requests.get\<close>, \<^verbatim>\<open>vision_client.label_detection\<close> and
  \<^verbatim>\<open>openai.chat.completions.create\<close>.

  The embedding keeps the handlers as pure functions of everything they read:
  the environment, the global, the request, and the three collaborators, each a function
  from its argument to either the exception it raises (\<open>Inl\<close>) or the value it returns
  (\<open>Inr\<close>). Library functions the handlers call but whose code is not part of the
  repository (\<^verbatim>\<open>json.loads\<close>, \<^verbatim>\<open>repr\<close> of a \<^verbatim>\<open>str\<close>, \<^verbatim>\<open>str\<close> of an \<^verbatim>\<open>int\<close>) are parameters.
\<close>

subsection \<open>Values\<close>

text \<open>
  What \<^verbatim>\<open>json.loads\<close> and \<^verbatim>\<open>request.get_json\<close> return, and what \<^verbatim>\<open>jsonify\<close> takes: Python's
  \<^verbatim>\<open>None\<close>, \<^verbatim>\<open>bool\<close>, \<^verbatim>\<open>int\<close>, \<^verbatim>\<open>float\<close>, \<^verbatim>\<open>str\<close>, \<^verbatim>\<open>list\<close> and \<^verbatim>\<open>dict\<close>. A \<^verbatim>\<open>dict\<close> is the list of its
  items in insertion order; its keys are distinct, and a lookup goes through \<open>map_of\<close>.
\<close>

datatype json =
    JNull
  | JBool bool
  | JInt int
  | JFloat rat
  | JStr string
  | JArr "json list"
  | JObj "(string \<times> json) list"

text \<open>
  An exception: the class, as far as an \<^verbatim>\<open>except\<close> clause of the module tells classes
  apart, and \<^verbatim>\<open>str(e)\<close>. \<^verbatim>\<open>openai.AuthenticationError\<close> is a subclass of \<^verbatim>\<open>openai.APIError\<close>;
  \<open>OpenAIAPIError\<close> stands for the instances of \<^verbatim>\<open>APIError\<close> that are not authentication
  errors, \<open>OtherException\<close> for every other subclass of \<^verbatim>\<open>Exception\<close>.
\<close>

datatype exn_class = OpenAIAuthenticationError | OpenAIAPIError | OtherException

datatype exn = Exn exn_class string

fun exn_str :: "exn \<Rightarrow> string" where
  "exn_str (Exn c m) = m"

fun exn_cls :: "exn \<Rightarrow> exn_class" where
  "exn_cls (Exn c m) = c"

fun type_name :: "json \<Rightarrow> string" where
  "type_name JNull = ''NoneType''"
| "type_name (JBool b) = ''bool''"
| "type_name (JInt i) = ''int''"
| "type_name (JFloat r) = ''float''"
| "type_name (JStr s) = ''str''"
| "type_name (JArr xs) = ''list''"
| "type_name (JObj kvs) = ''dict''"

text \<open>Truth value testing, as \<^verbatim>\<open>not data\<close> and \<^verbatim>\<open>not image_url\<close> use it.\<close>

fun truthy :: "json \<Rightarrow> bool" where
  "truthy JNull = False"
| "truthy (JBool b) = b"
| "truthy (JInt i) = (i \<noteq> 0)"
| "truthy (JFloat r) = (r \<noteq> 0)"
| "truthy (JStr s) = (s \<noteq> [])"
| "truthy (JArr xs) = (xs \<noteq> [])"
| "truthy (JObj kvs) = (kvs \<noteq> [])"

text \<open>
  \<^verbatim>\<open>f in v\<close> for a \<^verbatim>\<open>str\<close> \<open>f\<close>: key membership in a \<^verbatim>\<open>dict\<close>, element membership in a \<^verbatim>\<open>list\<close>,
  substring test in a \<^verbatim>\<open>str\<close>, and a \<^verbatim>\<open>TypeError\<close> for the values that are no containers
  (the message is the one of CPython up to 3.13; no property below depends on its wording).
\<close>

fun py_in :: "string \<Rightarrow> json \<Rightarrow> exn + bool" where
  "py_in f (JObj kvs) = Inr (f \<in> set (map fst kvs))"
| "py_in f (JArr xs) = Inr (JStr f \<in> set xs)"
| "py_in f (JStr s) = Inr (sublist f s)"
| "py_in f v =
     Inl (Exn OtherException (''argument of type '' @ [CHR 0x27] @ type_name v @ [CHR 0x27] @ '' is not iterable''))"

text \<open>\<^verbatim>\<open>xs[i]\<close> for \<open>i \<ge> 0\<close>: an \<^verbatim>\<open>IndexError\<close> out of range.\<close>

definition py_getitem :: "'a list \<Rightarrow> nat \<Rightarrow> exn + 'a" where
  "py_getitem xs i =
     (if i < length xs then Inr (xs ! i) else Inl (Exn OtherException ''list index out of range''))"

text \<open>The library functions that are parameters of the model.\<close>

record pylib =
  json_loads :: "string \<Rightarrow> string + json"
    \<comment> \<open>\<^verbatim>\<open>json.loads\<close> on a \<^verbatim>\<open>str\<close>: \<open>Inl\<close> is \<^verbatim>\<open>str(e)\<close> of the \<^verbatim>\<open>JSONDecodeError\<close> raised\<close>
  repr_str :: "string \<Rightarrow> string"
    \<comment> \<open>\<^verbatim>\<open>repr\<close> on a \<^verbatim>\<open>str\<close>\<close>
  str_int :: "int \<Rightarrow> string"
    \<comment> \<open>\<^verbatim>\<open>str\<close> on an \<^verbatim>\<open>int\<close>\<close>

text \<open>\<^verbatim>\<open>str\<close> of a list of \<^verbatim>\<open>str\<close>, which an f-string applies to \<^verbatim>\<open>{missing}\<close> and \<^verbatim>\<open>{labels}\<close>.\<close>

fun join_comma :: "string list \<Rightarrow> string" where
  "join_comma [] = []"
| "join_comma [x] = x"
| "join_comma (x # y # ys) = x @ '', '' @ join_comma (y # ys)"

definition str_list :: "pylib \<Rightarrow> string list \<Rightarrow> string" where
  "str_list L xs = ''['' @ join_comma (map (repr_str L) xs) @ '']''"

subsection \<open>Configuration and \<^verbatim>\<open>check_credentials\<close>\<close>

text \<open>\<^verbatim>\<open>os.getenv\<close> of the two variables: \<open>None\<close> when the variable is not set.\<close>

record environ =
  GOOGLE_CREDENTIALS :: "string option"
  OPENAI_API_KEY :: "string option"

record cred_status =
  google :: bool
  openai :: bool
  errors :: "string list"

definition initial_status :: cred_status where
  "initial_status = \<lparr>google = False, openai = False, errors = []\<rparr>"

definition add_error :: "cred_status \<Rightarrow> string \<Rightarrow> cred_status" where
  "add_error st msg = st\<lparr>errors := errors st @ [msg]\<rparr>"

definition required_fields :: "string list" where
  "required_fields = [''type'', ''project_id'', ''private_key'', ''client_email'']"

text \<open>
  \<^verbatim>\<open>[f for f in required_fields if f not in creds_dict]\<close>: the comprehension stops at the
  first membership test that raises.
\<close>

fun missing_fields :: "json \<Rightarrow> string list \<Rightarrow> exn + string list" where
  "missing_fields v [] = Inr []"
| "missing_fields v (f # fs) =
     (case py_in f v of
        Inl e \<Rightarrow> Inl e
      | Inr present \<Rightarrow>
          (case missing_fields v fs of
             Inl e \<Rightarrow> Inl e
           | Inr rest \<Rightarrow> Inr (if present then rest else f # rest)))"

text \<open>
  Lines 63 to 76, the block under \<^verbatim>\<open># Check Google credentials\<close>. Only
  \<^verbatim>\<open>json.JSONDecodeError\<close> is caught, so an exception of the comprehension leaves
  \<^verbatim>\<open>check_credentials\<close>.
\<close>

definition check_google :: "pylib \<Rightarrow> environ \<Rightarrow> cred_status \<Rightarrow> exn + cred_status" where
  "check_google L env st =
     (case GOOGLE_CREDENTIALS env of
        None \<Rightarrow> Inr (add_error st ''GOOGLE_CREDENTIALS not found in environment'')
      | Some s \<Rightarrow>
          if s = [] then Inr (add_error st ''GOOGLE_CREDENTIALS not found in environment'')
          else
            (case json_loads L s of
               Inl msg \<Rightarrow> Inr (add_error st (''Invalid Google credentials JSON: '' @ msg))
             | Inr creds_dict \<Rightarrow>
                 (case missing_fields creds_dict required_fields of
                    Inl e \<Rightarrow> Inl e
                  | Inr missing \<Rightarrow>
                      if missing \<noteq> []
                      then Inr (add_error st
                             (''Missing fields in Google credentials: '' @ str_list L missing))
                      else Inr (st\<lparr>google := True\<rparr>))))"

text \<open>Lines 78 to 86, the block under \<^verbatim>\<open># Check OpenAI key\<close>.\<close>

definition check_openai :: "environ \<Rightarrow> cred_status \<Rightarrow> cred_status" where
  "check_openai env st =
     (case OPENAI_API_KEY env of
        None \<Rightarrow> add_error st ''OPENAI_API_KEY not found in environment''
      | Some api_key \<Rightarrow>
          if api_key = [] then add_error st ''OPENAI_API_KEY not found in environment''
          else if prefix ''sk-'' api_key \<and> length api_key > 20 then st\<lparr>openai := True\<rparr>
          else add_error st ''Invalid OpenAI API key format'')"

definition check_credentials :: "pylib \<Rightarrow> environ \<Rightarrow> exn + cred_status" where
  "check_credentials L env =
     (case check_google L env initial_status of
        Inl e \<Rightarrow> Inl e
      | Inr st \<Rightarrow> Inr (check_openai env st))"

text \<open>
  Lines 16 to 51, run once when the module is loaded: whether \<^verbatim>\<open>vision_client\<close> is a client
  (\<open>True\<close>) or \<^verbatim>\<open>None\<close> (\<open>False\<close>). \<open>make_client\<close> stands for writing the credentials file,
  \<^verbatim>\<open>from_service_account_file\<close> and the \<^verbatim>\<open>ImageAnnotatorClient\<close> constructor; the outer
  \<^verbatim>\<open>except Exception\<close> turns every exception into \<^verbatim>\<open>None\<close>.
\<close>

definition init_vision_client :: "pylib \<Rightarrow> environ \<Rightarrow> (json \<Rightarrow> exn + unit) \<Rightarrow> bool" where
  "init_vision_client L env make_client =
     (case GOOGLE_CREDENTIALS env of
        None \<Rightarrow> False
      | Some s \<Rightarrow>
          if s = [] then False
          else
            (case json_loads L s of
               Inl msg \<Rightarrow> False
             | Inr creds_dict \<Rightarrow>
                 (case missing_fields creds_dict required_fields of
                    Inl e \<Rightarrow> False
                  | Inr missing \<Rightarrow>
                      if missing \<noteq> [] then False
                      else (case make_client creds_dict of Inl e \<Rightarrow> False | Inr u \<Rightarrow> True))))"

subsection \<open>Requests, responses and collaborators\<close>

record request =
  req_method :: string
  get_json :: "exn + json"
    \<comment> \<open>what \<^verbatim>\<open>request.get_json()\<close> does for this request: the exception it raises on a body
        it cannot parse, or the value it returns (\<open>JNull\<close> for \<^verbatim>\<open>None\<close>)\<close>

datatype resp_body = TextBody string | JsonBody json

record response =
  http_status :: nat
  body :: resp_body

record http_response =
  resp_ok :: bool
  status_code :: int
  content :: string

record world =
  requests_get :: "json \<Rightarrow> exn + http_response"
    \<comment> \<open>\<^verbatim>\<open>requests.get(image_url)\<close>\<close>
  label_detection :: "string \<Rightarrow> exn + string list"
    \<comment> \<open>\<^verbatim>\<open>vision_client.label_detection\<close> on the image bytes, down to the list of the
        \<^verbatim>\<open>description\<close>s of \<^verbatim>\<open>response.label_annotations\<close>\<close>
  chat_create :: "string \<Rightarrow> exn + string option list"
    \<comment> \<open>\<^verbatim>\<open>openai.chat.completions.create\<close> on the prompt, down to the \<^verbatim>\<open>message.content\<close>
        of each of \<^verbatim>\<open>completion.choices\<close> (\<open>None\<close> for a message without content)\<close>

text \<open>
  The steps of \<^verbatim>\<open>/analyze\<close>, logged as they are entered: line 102 (\<open>CheckingCredentials\<close>),
  115 (\<open>ValidatingInput\<close>), 129 (\<open>Downloading\<close>, the call of \<^verbatim>\<open>requests.get\<close>), 138 (\<open>Labeling\<close>,
  the call of \<^verbatim>\<open>label_detection\<close>), 144 (\<open>Prompting\<close>), 166 (\<open>Generating\<close>, the call of
  \<^verbatim>\<open>openai.chat.completions.create\<close>), 188 (\<open>ValidatingOutput\<close>) and 202 (\<open>Responding\<close>).
\<close>

datatype stage =
    CheckingCredentials
  | ValidatingInput
  | Downloading
  | Labeling
  | Prompting
  | Generating
  | ValidatingOutput
  | Responding

type_synonym 'a logged = "'a \<times> stage list"

definition after :: "stage list \<Rightarrow> 'a logged \<Rightarrow> 'a logged" where
  "after pre r = (fst r, pre @ snd r)"

text \<open>\<^verbatim>\<open>jsonify({"error": msg}), code\<close>.\<close>

definition error_response :: "nat \<Rightarrow> string \<Rightarrow> response" where
  "error_response code msg = \<lparr>http_status = code, body = JsonBody (JObj [(''error'', JStr msg)])\<rparr>"

text \<open>\<^verbatim>\<open>data.get(key)\<close>: an \<^verbatim>\<open>AttributeError\<close> unless \<open>data\<close> is a \<^verbatim>\<open>dict\<close>.\<close>

fun py_get :: "json \<Rightarrow> string \<Rightarrow> exn + json" where
  "py_get (JObj kvs) k = Inr (case map_of kvs k of None \<Rightarrow> JNull | Some v \<Rightarrow> v)"
| "py_get v k =
     Inl (Exn OtherException
       ([CHR 0x27] @ type_name v @ [CHR 0x27] @ '' object has no attribute '' @ [CHR 0x27] @ ''get'' @ [CHR 0x27]))"

subsection \<open>The prompt (lines 144 to 163)\<close>

text \<open>
  The f-string has two replacement fields. \<open>prompt_head\<close> is its text before \<^verbatim>\<open>{labels}\<close>,
  \<open>prompt_mid\<close> the text between the two fields and \<open>prompt_tail\<close> the text after the second.
\<close>

definition prompt_head :: string where
  \<open>prompt_head =
     ''\<newline>'' @
     ''        Based on these Vision AI labels for a clothing item: ''\<close>

definition prompt_mid :: string where
  \<open>prompt_mid =
     ''\<newline>'' @
     ''        \<newline>'' @
     ''        Generate a detailed JSON object describing the item. For each field, make an educated guess based on the labels and common clothing characteristics.\<newline>'' @
     ''        \<newline>'' @
     ''        Required fields:\<newline>'' @
     ''        {\<newline>'' @
     ''          "color": "Describe the main color(s) of the item. If unclear, make a reasonable guess based on similar items",\<newline>'' @
     ''          "collar_type": "Describe the collar style (e.g., crew neck, v-neck, polo, etc.). If not visible, use 'unknown'",\<newline>'' @
     ''          "sleeve_type": "Describe the sleeve style (e.g., short sleeve, long sleeve, etc.)",\<newline>'' @
     ''          "fit": "Describe how the item appears to fit (e.g., regular, loose, fitted)",\<newline>'' @
     ''          "style": "Specify if the item is blank, graphic, or embellished",\<newline>'' @
     ''          "pattern": "Describe any visible pattern or state 'solid' if none"\<newline>'' @
     ''        }\<newline>'' @
     ''\<newline>'' @
     ''        The labels indicate this is an '' @ [CHR 0x27]\<close>

definition prompt_tail :: string where
  \<open>prompt_tail =
     [CHR 0x27] @ '' item.\<newline>'' @
     ''        Analyze these labels and provide specific, confident descriptions even if some details are implied rather than explicitly stated.\<newline>'' @
     ''        \<newline>'' @
     ''        Respond ONLY with the JSON object, no additional text.\<newline>'' @
     ''        ''\<close>


definition fifth_label :: "string list \<Rightarrow> exn + string" where
  \<open>fifth_label labels = (if length labels > 4 then py_getitem labels 4 else Inr ''clothing'')\<close>

definition build_prompt :: "pylib \<Rightarrow> string list \<Rightarrow> exn + string" where
  "build_prompt L labels =
     (case fifth_label labels of
        Inl e \<Rightarrow> Inl e
      | Inr kind \<Rightarrow> Inr (prompt_head @ str_list L labels @ prompt_mid @ kind @ prompt_tail))"

subsection \<open>\<^verbatim>\<open>/analyze\<close>\<close>

text \<open>
  How a block of statements ends: by an exception, by a \<^verbatim>\<open>return\<close>, or by reaching its end
  with a value for the statements that follow.
\<close>

datatype 'a outcome = Raise exn | Return response | Next 'a

text \<open>
  Lines 166 to 190, the body of the inner \<^verbatim>\<open>try\<close>. \<^verbatim>\<open>completion.choices[0]\<close> raises on an empty
  list, \<^verbatim>\<open>json.loads(None)\<close> raises a \<^verbatim>\<open>TypeError\<close>, and the \<^verbatim>\<open>JSONDecodeError\<close> of a text that
  is no JSON is caught at line 189.
\<close>

definition generate_specifics :: "pylib \<Rightarrow> world \<Rightarrow> string \<Rightarrow> string outcome logged" where
  "generate_specifics L W prompt =
     (case chat_create W prompt of
        Inl e \<Rightarrow> (Raise e, [Generating])
      | Inr choices \<Rightarrow>
          (case py_getitem choices 0 of
             Inl e \<Rightarrow> (Raise e, [Generating])
           | Inr None \<Rightarrow>
               (Raise (Exn OtherException
                  ''the JSON object must be str, bytes or bytearray, not NoneType''),
                [Generating, ValidatingOutput])
           | Inr (Some specifics) \<Rightarrow>
               (case json_loads L specifics of
                  Inl msg \<Rightarrow>
                    (Return (error_response 500 ''Invalid JSON response from OpenAI''),
                     [Generating, ValidatingOutput])
                | Inr parsed \<Rightarrow> (Next specifics, [Generating, ValidatingOutput]))))"

text \<open>Lines 192 to 200, the \<^verbatim>\<open>except\<close> clauses of the inner \<^verbatim>\<open>try\<close>, in their order.\<close>

definition generation_error :: "exn \<Rightarrow> response" where
  "generation_error e =
     (case exn_cls e of
        OpenAIAuthenticationError \<Rightarrow> error_response 500 ''OpenAI API key is invalid''
      | OpenAIAPIError \<Rightarrow> error_response 500 (''OpenAI API Error: '' @ exn_str e)
      | OtherException \<Rightarrow> error_response 500 (''Error generating specifics: '' @ exn_str e))"

text \<open>Lines 202 to 208.\<close>

definition success_response :: "string \<Rightarrow> string list \<Rightarrow> response" where
  "success_response specifics labels =
     \<lparr>http_status = 200,
      body = JsonBody (JObj [(''success'', JBool True),
                             (''itemSpecifics'', JStr specifics),
                             (''labels'', JArr (map JStr labels))])\<rparr>"

text \<open>Lines 165 to 208: the inner \<^verbatim>\<open>try\<close> with its handlers, then the response.\<close>

definition generating :: "pylib \<Rightarrow> world \<Rightarrow> string list \<Rightarrow> string \<Rightarrow> (exn + response) logged" where
  "generating L W labels prompt =
     (case generate_specifics L W prompt of
        (Raise e, steps) \<Rightarrow> (Inr (generation_error e), steps)
      | (Return r, steps) \<Rightarrow> (Inr r, steps)
      | (Next specifics, steps) \<Rightarrow> (Inr (success_response specifics labels), steps @ [Responding]))"

text \<open>Lines 144 to 163, then the rest.\<close>

definition prompting :: "pylib \<Rightarrow> world \<Rightarrow> string list \<Rightarrow> (exn + response) logged" where
  "prompting L W labels =
     (case build_prompt L labels of
        Inl e \<Rightarrow> (Inl e, [Prompting])
      | Inr prompt \<Rightarrow> after [Prompting] (generating L W labels prompt))"

text \<open>Lines 138 and 139, then the rest.\<close>

definition labeling :: "pylib \<Rightarrow> world \<Rightarrow> string \<Rightarrow> (exn + response) logged" where
  "labeling L W image_bytes =
     (case label_detection W image_bytes of
        Inl e \<Rightarrow> (Inl e, [Labeling])
      | Inr labels \<Rightarrow> after [Labeling] (prompting L W labels))"

text \<open>Lines 129 to 133, then the rest.\<close>

definition downloading :: "pylib \<Rightarrow> world \<Rightarrow> json \<Rightarrow> (exn + response) logged" where
  "downloading L W image_url =
     (case requests_get W image_url of
        Inl e \<Rightarrow> (Inl e, [Downloading])
      | Inr img_response \<Rightarrow>
          if \<not> resp_ok img_response
          then (Inr (error_response 400
                  (''Failed to download image: '' @ str_int L (status_code img_response))),
                [Downloading])
          else after [Downloading] (labeling L W (content img_response)))"

text \<open>Lines 115 to 123, then the rest.\<close>

definition validating_input :: "pylib \<Rightarrow> world \<Rightarrow> request \<Rightarrow> (exn + response) logged" where
  "validating_input L W req =
     (case get_json req of
        Inl e \<Rightarrow> (Inl e, [ValidatingInput])
      | Inr data \<Rightarrow>
          if \<not> truthy data
          then (Inr (error_response 400 ''No JSON data received''), [ValidatingInput])
          else
            (case py_get data ''imageUrl'' of
               Inl e \<Rightarrow> (Inl e, [ValidatingInput])
             | Inr image_url \<Rightarrow>
                 if \<not> truthy image_url
                 then (Inr (error_response 400 ''No image URL provided''), [ValidatingInput])
                 else after [ValidatingInput] (downloading L W image_url)))"

text \<open>Lines 101 to 208, the body of the outer \<^verbatim>\<open>try\<close>.\<close>

definition analyze_body ::
  "pylib \<Rightarrow> bool \<Rightarrow> environ \<Rightarrow> world \<Rightarrow> request \<Rightarrow> (exn + response) logged" where
  "analyze_body L vision_client env W req =
     (case check_credentials L env of
        Inl e \<Rightarrow> (Inl e, [CheckingCredentials])
      | Inr cred_status \<Rightarrow>
          if \<not> google cred_status \<or> \<not> openai cred_status
          then (Inr \<lparr>http_status = 500,
                      body = JsonBody (JObj [(''error'', JStr ''Credential issues''),
                                             (''details'', JArr (map JStr (errors cred_status)))])\<rparr>,
                [CheckingCredentials])
          else if \<not> vision_client
          then (Inr \<lparr>http_status = 500,
                      body = JsonBody (JObj [(''error'', JStr ''Google Vision client not initialized''),
                                             (''details'', JStr ''Check server logs for initialization errors'')])\<rparr>,
                [CheckingCredentials])
          else after [CheckingCredentials] (validating_input L W req))"

text \<open>
  The view function, lines 95 to 213. \<open>Inl\<close> would be an exception that leaves it; the
  \<^verbatim>\<open>except Exception\<close> of line 210 answers every exception of the body with a 500.
\<close>

definition analyze ::
  "pylib \<Rightarrow> bool \<Rightarrow> environ \<Rightarrow> world \<Rightarrow> request \<Rightarrow> (exn + response) logged" where
  "analyze L vision_client env W req =
     (if req_method req = ''OPTIONS'' then (Inr \<lparr>http_status = 204, body = TextBody []\<rparr>, [])
      else
        (case analyze_body L vision_client env W req of
           (Inl e, steps) \<Rightarrow> (Inr (error_response 500 (exn_str e)), steps)
         | (Inr r, steps) \<Rightarrow> (Inr r, steps)))"

subsection \<open>\<^verbatim>\<open>/status\<close>\<close>

text \<open>
  Lines 236 to 243. There is no \<^verbatim>\<open>try\<close>: an exception of \<^verbatim>\<open>check_credentials\<close> leaves the view
  function. \<open>now\<close> is \<^verbatim>\<open>datetime.now().isoformat()\<close>.
\<close>

definition status :: "pylib \<Rightarrow> environ \<Rightarrow> string \<Rightarrow> exn + response" where
  "status L env now =
     (case check_credentials L env of
        Inl e \<Rightarrow> Inl e
      | Inr cred_status \<Rightarrow>
          Inr \<lparr>http_status = 200,
               body = JsonBody (JObj
                 [(''server'', JStr ''running''),
                  (''credentials'', JObj [(''google'', JBool (google cred_status)),
                                          (''openai'', JBool (openai cred_status)),
                                          (''errors'', JArr (map JStr (errors cred_status)))]),
                  (''time'', JStr now)])\<rparr>)"

subsection \<open>Properties named by the specification\<close>

text \<open>The six keys the specification requires of the generated object.\<close>

definition required_keys :: "string list" where
  "required_keys = [''color'', ''collar_type'', ''sleeve_type'', ''fit'', ''style'', ''pattern'']"

definition has_exactly_keys :: "json \<Rightarrow> string list \<Rightarrow> bool" where
  "has_exactly_keys j ks = (case j of JObj kvs \<Rightarrow> set (map fst kvs) = set ks | _ \<Rightarrow> False)"

text \<open>
  A body of the shape \<^verbatim>\<open>{error: string, details?: any}\<close>: a JSON object with a string under
  \<^verbatim>\<open>error\<close> and no key other than \<^verbatim>\<open>error\<close> and \<^verbatim>\<open>details\<close>.
\<close>

definition error_shaped :: "resp_body \<Rightarrow> bool" where
  "error_shaped b =
     (case b of
        TextBody t \<Rightarrow> False
      | JsonBody j \<Rightarrow>
          (case j of
             JObj kvs \<Rightarrow>
               (case map_of kvs ''error'' of
                  Some (JStr m) \<Rightarrow> set (map fst kvs) \<subseteq> {''error'', ''details''}
                | _ \<Rightarrow> False)
           | _ \<Rightarrow> False))"

text \<open>The keys of a JSON body; a body that is no JSON object has none.\<close>

definition body_keys :: "resp_body \<Rightarrow> string list" where
  "body_keys b = (case b of JsonBody (JObj kvs) \<Rightarrow> map fst kvs | _ \<Rightarrow> [])"

text \<open>The order in which \<^verbatim>\<open>analyze\<close> goes through its steps.\<close>

definition pipeline_order :: "stage list" where
  "pipeline_order =
     [CheckingCredentials, ValidatingInput, Downloading, Labeling, Prompting, Generating,
      ValidatingOutput, Responding]"

text \<open>
  The credential check of lines 102 to 113 lets the request through: \<^verbatim>\<open>check_credentials\<close>
  returns with both flags set and \<^verbatim>\<open>vision_client\<close> is not \<^verbatim>\<open>None\<close>.
\<close>

definition credentials_pass :: "pylib \<Rightarrow> bool \<Rightarrow> environ \<Rightarrow> bool" where
  "credentials_pass L vision_client env =
     (case check_credentials L env of
        Inl e \<Rightarrow> False
      | Inr cs \<Rightarrow> google cs \<and> openai cs \<and> vision_client)"

text \<open>
  The request carries no usable \<^verbatim>\<open>imageUrl\<close>: \<^verbatim>\<open>get_json\<close> raises, or returns a value that
  is false, that has no \<^verbatim>\<open>get\<close>, or whose \<^verbatim>\<open>imageUrl\<close> is absent or false.
\<close>

definition no_image_url :: "request \<Rightarrow> bool" where
  "no_image_url req =
     (case get_json req of
        Inl e \<Rightarrow> True
      | Inr data \<Rightarrow>
          \<not> truthy data \<or>
          (case py_get data ''imageUrl'' of Inl e \<Rightarrow> True | Inr u \<Rightarrow> \<not> truthy u))"

text \<open>
  The two cases lines 118 to 123 answer themselves: \<^verbatim>\<open>get_json\<close> returns a false value, or
  an object whose \<^verbatim>\<open>imageUrl\<close> is absent or false.
\<close>

definition rejected_input :: "request \<Rightarrow> bool" where
  "rejected_input req =
     (case get_json req of
        Inl e \<Rightarrow> False
      | Inr data \<Rightarrow>
          \<not> truthy data \<or>
          (case py_get data ''imageUrl'' of Inl e \<Rightarrow> False | Inr u \<Rightarrow> \<not> truthy u))"

text \<open>The API key passes lines 79 to 84.\<close>

definition api_key_ok :: "environ \<Rightarrow> bool" where
  "api_key_ok env =
     (case OPENAI_API_KEY env of
        None \<Rightarrow> False
      | Some k \<Rightarrow> prefix ''sk-'' k \<and> length k > 20)"

text \<open>
  The credential blob as the specification wants it: a JSON object with the four keys. A value
  that is no object has no keys.
\<close>

definition has_required_fields :: "json \<Rightarrow> bool" where
  "has_required_fields j =
     (case j of JObj kvs \<Rightarrow> set required_fields \<subseteq> set (map fst kvs) | _ \<Rightarrow> False)"

text \<open>
  \<^verbatim>\<open>GOOGLE_CREDENTIALS\<close> is absent (or empty), is not parseable JSON, or lacks a required key.
\<close>

definition google_credentials_bad :: "pylib \<Rightarrow> environ \<Rightarrow> bool" where
  "google_credentials_bad L env =
     (case GOOGLE_CREDENTIALS env of
        None \<Rightarrow> True
      | Some s \<Rightarrow>
          s = [] \<or> (case json_loads L s of Inl msg \<Rightarrow> True | Inr j \<Rightarrow> \<not> has_required_fields j))"

subsection \<open>The failure classes of the specification\<close>

text \<open>
  Section 7 of the specification names the ways a request can fail and gives each a status:
  400 for a bad request and for a failed download, 500 for everything else.
\<close>

datatype failure =
    BadRequest
  | ConfigError
  | DownloadError
  | ServiceError
  | AuthError
  | ProviderError
  | TransportError
  | InvalidResponseError
  | UnexpectedError

fun failure_status :: "failure \<Rightarrow> nat" where
  "failure_status BadRequest = 400"
| "failure_status DownloadError = 400"
| "failure_status f = 500"

text \<open>
  The steps a run has entered when it ends at step \<open>s\<close>: the steps before \<open>s\<close> in the order of
  \<^verbatim>\<open>analyze\<close>, and \<open>s\<close>.
\<close>

definition steps_through :: "stage \<Rightarrow> stage list" where
  "steps_through s = takeWhile (\<lambda>t. t \<noteq> s) pipeline_order @ [s]"

text \<open>
  What a request comes to, read off the configuration and the answers of the collaborators:
  the first failure with the step at which it happens, or the generated text and the labels
  when nothing fails. Each function looks at one step and at nothing the handler builds (no
  response, no log). An exception that no clause of the module names ends in the catch-all of
  line 210 and is an \<open>UnexpectedError\<close>; the exceptions of the generator are told apart as the
  clauses of lines 192 to 198 do.
\<close>

type_synonym outcome_class = "(failure \<times> stage) + (string \<times> string list)"

definition generation_failure :: "exn \<Rightarrow> failure" where
  "generation_failure e =
     (case exn_cls e of
        OpenAIAuthenticationError \<Rightarrow> AuthError
      | OpenAIAPIError \<Rightarrow> ProviderError
      | OtherException \<Rightarrow> TransportError)"

definition outcome_generating :: "pylib \<Rightarrow> world \<Rightarrow> string list \<Rightarrow> string \<Rightarrow> outcome_class" where
  "outcome_generating L W labels prompt =
     (case chat_create W prompt of
        Inl e \<Rightarrow> Inl (generation_failure e, Generating)
      | Inr [] \<Rightarrow> Inl (TransportError, Generating)
      | Inr (None # cs) \<Rightarrow> Inl (TransportError, ValidatingOutput)
      | Inr (Some t # cs) \<Rightarrow>
          (case json_loads L t of
             Inl msg \<Rightarrow> Inl (InvalidResponseError, ValidatingOutput)
           | Inr j \<Rightarrow> Inr (t, labels)))"

definition outcome_prompting :: "pylib \<Rightarrow> world \<Rightarrow> string list \<Rightarrow> outcome_class" where
  "outcome_prompting L W labels =
     (case build_prompt L labels of
        Inl e \<Rightarrow> Inl (UnexpectedError, Prompting)
      | Inr prompt \<Rightarrow> outcome_generating L W labels prompt)"

definition outcome_labeling :: "pylib \<Rightarrow> world \<Rightarrow> string \<Rightarrow> outcome_class" where
  "outcome_labeling L W image_bytes =
     (case label_detection W image_bytes of
        Inl e \<Rightarrow> Inl (ServiceError, Labeling)
      | Inr labels \<Rightarrow> outcome_prompting L W labels)"

definition outcome_downloading :: "pylib \<Rightarrow> world \<Rightarrow> json \<Rightarrow> outcome_class" where
  "outcome_downloading L W image_url =
     (case requests_get W image_url of
        Inl e \<Rightarrow> Inl (UnexpectedError, Downloading)
      | Inr img \<Rightarrow>
          if resp_ok img then outcome_labeling L W (content img)
          else Inl (DownloadError, Downloading))"

definition outcome_validating :: "pylib \<Rightarrow> world \<Rightarrow> request \<Rightarrow> outcome_class" where
  "outcome_validating L W req =
     (case get_json req of
        Inl e \<Rightarrow> Inl (UnexpectedError, ValidatingInput)
      | Inr data \<Rightarrow>
          if \<not> truthy data then Inl (BadRequest, ValidatingInput)
          else
            (case py_get data ''imageUrl'' of
               Inl e \<Rightarrow> Inl (UnexpectedError, ValidatingInput)
             | Inr u \<Rightarrow>
                 if truthy u then outcome_downloading L W u
                 else Inl (BadRequest, ValidatingInput)))"

definition pipeline_outcome ::
  "pylib \<Rightarrow> bool \<Rightarrow> environ \<Rightarrow> world \<Rightarrow> request \<Rightarrow> outcome_class" where
  "pipeline_outcome L vision_client env W req =
     (case check_credentials L env of
        Inl e \<Rightarrow> Inl (UnexpectedError, CheckingCredentials)
      | Inr cs \<Rightarrow>
          if google cs \<and> openai cs \<and> vision_client then outcome_validating L W req
          else Inl (ConfigError, CheckingCredentials))"

subsection \<open>Notions used in the proofs\<close>

text \<open>
  What a response of \<^verbatim>\<open>/analyze\<close> may be: the success body with status 200, or a body of the
  error shape with status 400 or 500.
\<close>

definition response_ok :: "response \<Rightarrow> bool" where
  "response_ok r =
     ((http_status r = 200 \<and> (\<exists>s ls. r = success_response s ls)) \<or>
      ((http_status r = 400 \<or> http_status r = 500) \<and> error_shaped (body r)))"

definition stage_ok :: "(exn + response) logged \<Rightarrow> bool" where
  "stage_ok x = (case fst x of Inl e \<Rightarrow> True | Inr r \<Rightarrow> response_ok r)"

text \<open>
  A run that has the steps \<open>rest\<close> before it goes through a beginning of them, and through
  all of them exactly when it answers with status 200.
\<close>

definition run_conforms :: "stage list \<Rightarrow> (exn + response) logged \<Rightarrow> bool" where
  "run_conforms rest x =
     (prefix (snd x) rest \<and> ((\<exists>r. fst x = Inr r \<and> http_status r = 200) \<longleftrightarrow> snd x = rest))"

text \<open>
  A step of the handler agrees with the outcome read off the collaborators: on success it
  returns the success body after all steps, on a failure at step \<open>s\<close> its log ends at \<open>s\<close> and
  its answer has the status of the failure and the error shape (an exception it lets through
  is answered by the catch-all with 500). \<open>pre\<close> are the steps before this one.
\<close>

definition stage_agrees :: "stage list \<Rightarrow> outcome_class \<Rightarrow> (exn + response) logged \<Rightarrow> bool" where
  "stage_agrees pre v x =
     (case v of
        Inr (t, ls) \<Rightarrow> fst x = Inr (success_response t ls) \<and> pre @ snd x = pipeline_order
      | Inl (f, s) \<Rightarrow>
          pre @ snd x = steps_through s \<and>
          (case fst x of
             Inl e \<Rightarrow> failure_status f = 500
           | Inr r \<Rightarrow> http_status r = failure_status f \<and> error_shaped (body r)))"

subsection \<open>Sample inputs\<close>

text \<open>
  Concrete library functions for the examples. They agree with Python on the arguments the
  examples give them and are not meant beyond those.
\<close>

definition service_account_text :: string where
  \<open>service_account_text =
     ''{"type": "service_account", "project_id": "p", "private_key": "k", "client_email": "e"}''\<close>

definition field_list_text :: string where
  \<open>field_list_text = ''["type", "project_id", "private_key", "client_email"]''\<close>

definition sample_loads :: "string \<Rightarrow> string + json" where
  "sample_loads s =
     (if s = ''{}'' then Inr (JObj [])
      else if s = ''5'' then Inr (JInt 5)
      else if s = service_account_text
        then Inr (JObj [(''type'', JStr ''service_account''), (''project_id'', JStr ''p''),
                        (''private_key'', JStr ''k''), (''client_email'', JStr ''e'')])
      else if s = field_list_text
        then Inr (JArr [JStr ''type'', JStr ''project_id'', JStr ''private_key'',
                        JStr ''client_email''])
      else Inl ''Expecting value: line 1 column 1 (char 0)'')"

definition sample_lib :: pylib where
  "sample_lib =
     \<lparr>json_loads = sample_loads,
      repr_str = (\<lambda>s. [CHR 0x27] @ s @ [CHR 0x27]),
      str_int = (\<lambda>i. if i = 404 then ''404'' else ''200'')\<rparr>"

definition good_key :: string where
  "good_key = ''sk-0123456789abcdefghij''"

definition env_ok :: environ where
  "env_ok = \<lparr>GOOGLE_CREDENTIALS = Some service_account_text, OPENAI_API_KEY = Some good_key\<rparr>"

definition env_unset :: environ where
  "env_unset = \<lparr>GOOGLE_CREDENTIALS = None, OPENAI_API_KEY = None\<rparr>"

definition env_short_key :: environ where
  "env_short_key = \<lparr>GOOGLE_CREDENTIALS = Some service_account_text, OPENAI_API_KEY = Some ''sk-short''\<rparr>"

definition env_field_list :: environ where
  "env_field_list = \<lparr>GOOGLE_CREDENTIALS = Some field_list_text, OPENAI_API_KEY = Some good_key\<rparr>"

definition env_number :: environ where
  "env_number = \<lparr>GOOGLE_CREDENTIALS = Some ''5'', OPENAI_API_KEY = Some good_key\<rparr>"

definition sample_image :: http_response where
  "sample_image = \<lparr>resp_ok = True, status_code = 200, content = ''JPEG''\<rparr>"

definition sample_labels :: "string list" where
  "sample_labels = [''Shirt'', ''Sleeve'']"

text \<open>A generator that answers with the empty JSON object, and one that answers with prose.\<close>

definition world_empty_object :: world where
  "world_empty_object =
     \<lparr>requests_get = (\<lambda>u. Inr sample_image),
      label_detection = (\<lambda>b. Inr sample_labels),
      chat_create = (\<lambda>p. Inr [Some ''{}''])\<rparr>"

definition world_prose :: world where
  "world_prose =
     \<lparr>requests_get = (\<lambda>u. Inr sample_image),
      label_detection = (\<lambda>b. Inr sample_labels),
      chat_create = (\<lambda>p. Inr [Some ''A blue shirt.''])\<rparr>"

text \<open>The same collaborators behind a server that answers the download with status 203.\<close>

definition world_empty_object_203 :: world where
  "world_empty_object_203 =
     \<lparr>requests_get = (\<lambda>u. Inr \<lparr>resp_ok = True, status_code = 203, content = ''JPEG''\<rparr>),
      label_detection = (\<lambda>b. Inr sample_labels),
      chat_create = (\<lambda>p. Inr [Some ''{}''])\<rparr>"

definition sample_time :: string where
  "sample_time = ''2024-05-01T12:00:00''"

text \<open>A label-detection service that is down.\<close>

definition world_vision_down :: world where
  "world_vision_down =
     \<lparr>requests_get = (\<lambda>u. Inr sample_image),
      label_detection = (\<lambda>b. Inl (Exn OtherException ''503 Service Unavailable'')),
      chat_create = (\<lambda>p. Inr [Some ''{}''])\<rparr>"

definition sample_url :: json where
  "sample_url = JStr ''https://example.com/shirt.jpg''"

definition req_ok :: request where
  "req_ok = \<lparr>req_method = ''POST'', get_json = Inr (JObj [(''imageUrl'', sample_url)])\<rparr>"

definition req_no_url :: request where
  "req_no_url = \<lparr>req_method = ''POST'', get_json = Inr (JObj [(''image'', sample_url)])\<rparr>"

section \<open>Properties of \<^verbatim>\<open>check_credentials\<close>\<close>

lemma check_openai_flag:
  "openai (check_openai env st) = (openai st \<or> api_key_ok env)"
  by (auto simp: check_openai_def api_key_ok_def add_error_def split: option.splits)

lemma check_google_openai:
  "check_google L env st = Inr st' \<Longrightarrow> openai st' = openai st"
  by (auto simp: check_google_def add_error_def split: option.splits if_splits sum.splits)

lemma check_openai_errors:
  "\<not> api_key_ok env \<Longrightarrow>
   \<exists>msg. errors (check_openai env st) = errors st @ [msg] \<and>
     msg \<in> {''OPENAI_API_KEY not found in environment'', ''Invalid OpenAI API key format''}"
  by (auto simp: check_openai_def api_key_ok_def add_error_def split: option.splits)

text \<open>
  C9. Whenever \<^verbatim>\<open>check_credentials\<close> returns a status, its \<^verbatim>\<open>openai\<close> flag is true exactly when
  the API key is set, starts with \<^verbatim>\<open>sk-\<close> and is longer than 20 characters; in every other case
  the flag is false and the last entry of \<^verbatim>\<open>errors\<close> is one of the two messages about the key.
\<close>

theorem check_credentials_openai:
  assumes "check_credentials L env = Inr st"
  shows "(openai st \<longleftrightarrow> api_key_ok env) \<and>
         (\<not> api_key_ok env \<longrightarrow>
            errors st \<noteq> [] \<and>
            last (errors st) \<in> {''OPENAI_API_KEY not found in environment'',
                                ''Invalid OpenAI API key format''})"
proof -
  from assms obtain g where g: "check_google L env initial_status = Inr g"
    and st: "st = check_openai env g"
    by (auto simp: check_credentials_def split: sum.splits)
  have "openai g = False"
    using check_google_openai [OF g] by (simp add: initial_status_def)
  then have flag: "openai st \<longleftrightarrow> api_key_ok env"
    by (simp add: st check_openai_flag)
  have "errors st \<noteq> [] \<and> last (errors st) \<in> {''OPENAI_API_KEY not found in environment'',
                                ''Invalid OpenAI API key format''}" if "\<not> api_key_ok env"
    using check_openai_errors [OF that, of g] by (auto simp: st)
  with flag show ?thesis by blast
qed

theorem check_credentials_openai_witness:
  "check_credentials sample_lib env_short_key =
     Inr \<lparr>google = True, openai = False, errors = [''Invalid OpenAI API key format'']\<rparr> \<and>
   \<not> api_key_ok env_short_key"
proof -
  have h: "check_credentials sample_lib env_short_key =
     Inr \<lparr>google = True, openai = False, errors = [''Invalid OpenAI API key format'']\<rparr>"
    by (simp add: check_credentials_def check_google_def check_openai_def env_short_key_def
        sample_lib_def sample_loads_def service_account_text_def initial_status_def
        required_fields_def add_error_def)
  show ?thesis using h check_credentials_openai [OF h] by simp
qed

text \<open>
  C10. In a status returned by \<^verbatim>\<open>check_credentials\<close>, a false \<^verbatim>\<open>google\<close> or \<^verbatim>\<open>openai\<close> flag comes
  with a non-empty \<^verbatim>\<open>errors\<close> list; equivalently, an empty list comes with both flags true.
\<close>

theorem check_credentials_errors_nonempty:
  assumes "check_credentials L env = Inr st"
  shows "(\<not> google st \<or> \<not> openai st \<longrightarrow> errors st \<noteq> []) \<and>
         (errors st = [] \<longrightarrow> google st \<and> openai st)"
  using assms
  by (auto simp: check_credentials_def check_google_def check_openai_def add_error_def
      initial_status_def split: sum.splits option.splits if_splits)

theorem check_credentials_errors_nonempty_witness:
  "check_credentials sample_lib env_unset =
     Inr \<lparr>google = False, openai = False,
          errors = [''GOOGLE_CREDENTIALS not found in environment'',
                    ''OPENAI_API_KEY not found in environment'']\<rparr>"
proof -
  have h: "check_credentials sample_lib env_unset =
     Inr \<lparr>google = False, openai = False,
          errors = [''GOOGLE_CREDENTIALS not found in environment'',
                    ''OPENAI_API_KEY not found in environment'']\<rparr>"
    by (simp add: check_credentials_def check_google_def check_openai_def env_unset_def
        initial_status_def add_error_def)
  show ?thesis using h check_credentials_errors_nonempty [OF h] by simp
qed

section \<open>Properties of the prompt\<close>

text \<open>
  C5. For fewer than five labels (the empty list included) building the prompt raises no
  \<^verbatim>\<open>IndexError\<close> and puts the literal \<^verbatim>\<open>clothing\<close> where the label at index 4 would stand; for
  five or more labels the label at index 4 stands there.
\<close>

theorem build_prompt_fifth_label:
  "(length labels < 5 \<longrightarrow>
      build_prompt L labels =
        Inr (prompt_head @ str_list L labels @ prompt_mid @ ''clothing'' @ prompt_tail)) \<and>
   (5 \<le> length labels \<longrightarrow>
      build_prompt L labels =
        Inr (prompt_head @ str_list L labels @ prompt_mid @ labels ! 4 @ prompt_tail))"
  by (simp add: build_prompt_def fifth_label_def py_getitem_def)

theorem build_prompt_fifth_label_witness:
  "build_prompt sample_lib [] =
     Inr (prompt_head @ ''[]'' @ prompt_mid @ ''clothing'' @ prompt_tail) \<and>
   build_prompt sample_lib [''Top'', ''Sleeve'', ''Collar'', ''Blue'', ''T-shirt''] =
     Inr (prompt_head @ str_list sample_lib [''Top'', ''Sleeve'', ''Collar'', ''Blue'', ''T-shirt'']
          @ prompt_mid @ ''T-shirt'' @ prompt_tail)"
  using build_prompt_fifth_label [of "[]" sample_lib]
    build_prompt_fifth_label [of "[''Top'', ''Sleeve'', ''Collar'', ''Blue'', ''T-shirt'']" sample_lib]
  by (simp add: str_list_def)

section \<open>The steps of \<^verbatim>\<open>/analyze\<close>\<close>

lemma error_shaped_error_response [simp]: "error_shaped (body (error_response c m))"
  by (simp add: error_shaped_def error_response_def)

lemma status_error_response [simp]: "http_status (error_response c m) = c"
  by (simp add: error_response_def)

lemma status_success_response [simp]: "http_status (success_response s ls) = 200"
  by (simp add: success_response_def)

lemma fst_after [simp]: "fst (after pre x) = fst x"
  by (simp add: after_def)

lemma snd_after [simp]: "snd (after pre x) = pre @ snd x"
  by (simp add: after_def)

lemma response_ok_error [simp]: "c = 400 \<or> c = 500 \<Longrightarrow> response_ok (error_response c m)"
  by (auto simp: response_ok_def)

lemma response_ok_success [simp]: "response_ok (success_response s ls)"
  by (auto simp: response_ok_def)

lemma generation_error_ok [simp]: "response_ok (generation_error e)"
  by (simp add: generation_error_def split: exn_class.splits)

lemma generation_error_status [simp]: "http_status (generation_error e) = 500"
  by (simp add: generation_error_def split: exn_class.splits)

lemma stage_ok_simps [simp]:
  "stage_ok (Inl e, l)" "stage_ok (Inr r, l) = response_ok r" "stage_ok (after pre x) = stage_ok x"
  by (simp_all add: stage_ok_def)

lemma generate_specifics_cases:
  "(\<exists>e. generate_specifics L W p = (Raise e, [Generating])) \<or>
   (\<exists>e. generate_specifics L W p = (Raise e, [Generating, ValidatingOutput])) \<or>
   (generate_specifics L W p =
      (Return (error_response 500 ''Invalid JSON response from OpenAI''),
       [Generating, ValidatingOutput])) \<or>
   (\<exists>s. generate_specifics L W p = (Next s, [Generating, ValidatingOutput]))"
  by (simp add: generate_specifics_def split: sum.splits option.splits)

lemma generating_ok: "stage_ok (generating L W labels p)"
  using generate_specifics_cases [of L W p] by (auto simp: generating_def)

lemma generating_returns: "\<exists>r steps. generating L W labels p = (Inr r, steps)"
  using generate_specifics_cases [of L W p] by (auto simp: generating_def)

lemma generating_conforms:
  "run_conforms [Generating, ValidatingOutput, Responding] (generating L W labels p)"
  using generate_specifics_cases [of L W p] by (auto simp: generating_def run_conforms_def)

lemma build_prompt_returns: "\<exists>p. build_prompt L labels = Inr p"
  by (simp add: build_prompt_def fifth_label_def py_getitem_def)

lemma run_conforms_after:
  "run_conforms rest x \<Longrightarrow> run_conforms (s # rest) (after [s] x)"
  by (auto simp: run_conforms_def)

lemma run_conforms_raise: "rest \<noteq> [] \<Longrightarrow> run_conforms (s # rest) (Inl e, [s])"
  by (auto simp: run_conforms_def)

lemma run_conforms_fail:
  "rest \<noteq> [] \<Longrightarrow> http_status r \<noteq> 200 \<Longrightarrow> run_conforms (s # rest) (Inr r, [s])"
  by (auto simp: run_conforms_def)

lemma prompting_ok: "stage_ok (prompting L W labels)"
  by (simp add: prompting_def generating_ok split: sum.splits)

lemma prompting_conforms:
  "run_conforms [Prompting, Generating, ValidatingOutput, Responding] (prompting L W labels)"
  by (auto simp: prompting_def run_conforms_raise run_conforms_after generating_conforms
      split: sum.splits)

lemma labeling_ok: "stage_ok (labeling L W b)"
  by (simp add: labeling_def prompting_ok split: sum.splits)

lemma labeling_conforms:
  "run_conforms [Labeling, Prompting, Generating, ValidatingOutput, Responding] (labeling L W b)"
  by (auto simp: labeling_def run_conforms_raise run_conforms_after prompting_conforms
      split: sum.splits)

lemma downloading_ok: "stage_ok (downloading L W u)"
  by (simp add: downloading_def labeling_ok split: sum.splits)

lemma downloading_conforms:
  "run_conforms [Downloading, Labeling, Prompting, Generating, ValidatingOutput, Responding]
     (downloading L W u)"
  by (auto simp: downloading_def run_conforms_raise run_conforms_fail run_conforms_after
      labeling_conforms split: sum.splits)

lemma validating_input_ok: "stage_ok (validating_input L W req)"
  by (simp add: validating_input_def downloading_ok split: sum.splits)

lemma validating_input_conforms:
  "run_conforms
     [ValidatingInput, Downloading, Labeling, Prompting, Generating, ValidatingOutput, Responding]
     (validating_input L W req)"
  by (auto simp: validating_input_def run_conforms_raise run_conforms_fail run_conforms_after
      downloading_conforms split: sum.splits)

lemma analyze_body_ok: "stage_ok (analyze_body L vc env W req)"
  by (simp add: analyze_body_def validating_input_ok response_ok_def error_shaped_def
      split: sum.splits)

lemma analyze_body_conforms: "run_conforms pipeline_order (analyze_body L vc env W req)"
  unfolding pipeline_order_def
  by (auto simp: analyze_body_def run_conforms_raise run_conforms_fail run_conforms_after
      validating_input_conforms split: sum.splits)

text \<open>The two ways out of the credential check, and the two ways out of the input check.\<close>

lemma analyze_body_blocked:
  assumes "\<not> credentials_pass L vc env"
  shows "snd (analyze_body L vc env W req) = [CheckingCredentials] \<and>
         (case fst (analyze_body L vc env W req) of
            Inl e \<Rightarrow> True | Inr r \<Rightarrow> http_status r = 500 \<and> error_shaped (body r))"
  using assms
  by (auto simp: analyze_body_def credentials_pass_def error_shaped_def split: sum.splits)

lemma analyze_body_pass:
  assumes "credentials_pass L vc env"
  shows "analyze_body L vc env W req = after [CheckingCredentials] (validating_input L W req)"
  using assms
  by (auto simp: analyze_body_def credentials_pass_def split: sum.splits)

lemma analyze_blocked:
  assumes "req_method req \<noteq> ''OPTIONS''" and "\<not> credentials_pass L vc env"
  shows "snd (analyze L vc env W req) = [CheckingCredentials] \<and>
         (\<exists>r. fst (analyze L vc env W req) = Inr r \<and> http_status r = 500)"
  using analyze_body_blocked [OF assms(2), of W req] assms(1)
  by (cases "analyze_body L vc env W req") (auto simp: analyze_def split: sum.splits)

lemma validating_input_no_url:
  assumes "no_image_url req"
  shows "snd (validating_input L W req) = [ValidatingInput]"
  using assms
  by (auto simp: validating_input_def no_image_url_def split: sum.splits)

lemma validating_input_rejected:
  assumes "rejected_input req"
  shows "\<exists>r. fst (validating_input L W req) = Inr r \<and> http_status r = 400"
  using assms
  by (auto simp: validating_input_def rejected_input_def split: sum.splits)

text \<open>A run whose checks pass and whose download and label detection return reaches the generator.\<close>

lemma analyze_reaches_generating:
  assumes "req_method req \<noteq> ''OPTIONS''"
    and "credentials_pass L vc env"
    and "get_json req = Inr data" and "truthy data"
    and "py_get data ''imageUrl'' = Inr u" and "truthy u"
    and "requests_get W u = Inr img" and "resp_ok img"
    and "label_detection W (content img) = Inr labels"
    and "build_prompt L labels = Inr p"
  shows "analyze L vc env W req =
           after [CheckingCredentials, ValidatingInput, Downloading, Labeling, Prompting]
             (generating L W labels p)"
proof -
  have "analyze_body L vc env W req =
          after [CheckingCredentials, ValidatingInput, Downloading, Labeling, Prompting]
             (generating L W labels p)"
    using assms
    by (simp add: analyze_body_pass validating_input_def downloading_def labeling_def
        prompting_def after_def)
  moreover obtain r steps where g: "generating L W labels p = (Inr r, steps)"
    using generating_returns [of L W labels p] by blast
  ultimately show ?thesis using assms(1) by (simp add: analyze_def after_def)
qed

lemma generating_invalid_json:
  assumes "chat_create W p = Inr (Some t # cs)" and "json_loads L t = Inl msg"
  shows "generating L W labels p =
           (Inr (error_response 500 ''Invalid JSON response from OpenAI''),
            [Generating, ValidatingOutput])"
  using assms by (simp add: generating_def generate_specifics_def py_getitem_def)

lemma generating_valid_json:
  assumes "chat_create W p = Inr (Some t # cs)" and "json_loads L t = Inr j"
  shows "generating L W labels p =
           (Inr (success_response t labels), [Generating, ValidatingOutput, Responding])"
  using assms by (simp add: generating_def generate_specifics_def py_getitem_def)

lemma analyze_ok_inversion:
  assumes "req_method req \<noteq> ''OPTIONS''"
    and "fst (analyze L vc env W req) = Inr r" and "http_status r = 200"
    and "get_json req = Inr data" and "py_get data ''imageUrl'' = Inr u"
    and "requests_get W u = Inr img" and "label_detection W (content img) = Inr labels"
    and "build_prompt L labels = Inr p" and "chat_create W p = Inr (c # cs)"
  shows "\<exists>t. c = Some t \<and> r = success_response t labels"
proof -
  have cp: "credentials_pass L vc env"
  proof (rule ccontr)
    assume n: "\<not> credentials_pass L vc env"
    from analyze_body_blocked [OF n, of W req] assms(1-3) show False
      by (cases "analyze_body L vc env W req") (auto simp: analyze_def split: sum.splits)
  qed
  from assms cp show ?thesis
    by (auto simp: analyze_def analyze_body_pass validating_input_def downloading_def
        labeling_def prompting_def generating_def generate_specifics_def py_getitem_def
        after_def split: if_splits option.splits sum.splits)
qed

text \<open>Step by step, the handler agrees with the outcome read off the collaborators.\<close>

lemma steps_through_simps:
  "steps_through CheckingCredentials = [CheckingCredentials]"
  "steps_through ValidatingInput = [CheckingCredentials, ValidatingInput]"
  "steps_through Downloading = [CheckingCredentials, ValidatingInput, Downloading]"
  "steps_through Labeling = [CheckingCredentials, ValidatingInput, Downloading, Labeling]"
  "steps_through Prompting =
     [CheckingCredentials, ValidatingInput, Downloading, Labeling, Prompting]"
  "steps_through Generating =
     [CheckingCredentials, ValidatingInput, Downloading, Labeling, Prompting, Generating]"
  "steps_through ValidatingOutput =
     [CheckingCredentials, ValidatingInput, Downloading, Labeling, Prompting, Generating,
      ValidatingOutput]"
  "steps_through Responding = pipeline_order"
  by (simp_all add: steps_through_def pipeline_order_def)

lemma stage_agrees_after:
  "stage_agrees (pre @ [s]) v x \<Longrightarrow> stage_agrees pre v (after [s] x)"
  by (auto simp: stage_agrees_def split: sum.splits prod.splits)

lemma generation_failure_status [simp]: "failure_status (generation_failure e) = 500"
  by (simp add: generation_failure_def split: exn_class.splits)

lemma error_shaped_generation_error [simp]: "error_shaped (body (generation_error e))"
  by (simp add: generation_error_def split: exn_class.splits)

lemma generating_agrees:
  "stage_agrees [CheckingCredentials, ValidatingInput, Downloading, Labeling, Prompting]
     (outcome_generating L W labels p) (generating L W labels p)"
  by (simp add: stage_agrees_def outcome_generating_def generating_def generate_specifics_def
      py_getitem_def steps_through_simps pipeline_order_def
      split: sum.splits list.splits option.splits)

lemma prompting_agrees:
  "stage_agrees [CheckingCredentials, ValidatingInput, Downloading, Labeling]
     (outcome_prompting L W labels) (prompting L W labels)"
proof (cases "build_prompt L labels")
  case (Inl e)
  then show ?thesis
    by (simp add: stage_agrees_def outcome_prompting_def prompting_def steps_through_simps)
next
  case (Inr p)
  with stage_agrees_after [of "[CheckingCredentials, ValidatingInput, Downloading, Labeling]"
      Prompting, OF _] generating_agrees [of L W labels p]
  show ?thesis by (simp add: outcome_prompting_def prompting_def)
qed

lemma labeling_agrees:
  "stage_agrees [CheckingCredentials, ValidatingInput, Downloading]
     (outcome_labeling L W b) (labeling L W b)"
proof (cases "label_detection W b")
  case (Inl e)
  then show ?thesis
    by (simp add: stage_agrees_def outcome_labeling_def labeling_def steps_through_simps)
next
  case (Inr labels)
  with stage_agrees_after [of "[CheckingCredentials, ValidatingInput, Downloading]" Labeling]
    prompting_agrees [of L W labels]
  show ?thesis by (simp add: outcome_labeling_def labeling_def)
qed

lemma downloading_agrees:
  "stage_agrees [CheckingCredentials, ValidatingInput]
     (outcome_downloading L W u) (downloading L W u)"
proof (cases "requests_get W u")
  case (Inl e)
  then show ?thesis
    by (simp add: stage_agrees_def outcome_downloading_def downloading_def steps_through_simps)
next
  case (Inr img)
  show ?thesis
  proof (cases "resp_ok img")
    case True
    with Inr stage_agrees_after [of "[CheckingCredentials, ValidatingInput]" Downloading]
      labeling_agrees [of L W "content img"]
    show ?thesis by (simp add: outcome_downloading_def downloading_def)
  next
    case False
    with Inr show ?thesis
      by (simp add: stage_agrees_def outcome_downloading_def downloading_def steps_through_simps)
  qed
qed

lemma validating_input_agrees:
  "stage_agrees [CheckingCredentials] (outcome_validating L W req) (validating_input L W req)"
proof (cases "get_json req")
  case (Inl e)
  then show ?thesis
    by (simp add: stage_agrees_def outcome_validating_def validating_input_def
        steps_through_simps)
next
  case data: (Inr data)
  show ?thesis
  proof (cases "truthy data")
    case False
    with data show ?thesis
      by (simp add: stage_agrees_def outcome_validating_def validating_input_def
          steps_through_simps)
  next
    case True
    show ?thesis
    proof (cases "py_get data ''imageUrl''")
      case (Inl e)
      with data True show ?thesis
        by (simp add: stage_agrees_def outcome_validating_def validating_input_def
            steps_through_simps)
    next
      case (Inr u)
      show ?thesis
      proof (cases "truthy u")
        case False
        with data True Inr show ?thesis
          by (simp add: stage_agrees_def outcome_validating_def validating_input_def
              steps_through_simps)
      next
        case tu: True
        with data True Inr stage_agrees_after [of "[CheckingCredentials]" ValidatingInput]
          downloading_agrees [of L W u]
        show ?thesis by (simp add: outcome_validating_def validating_input_def)
      qed
    qed
  qed
qed

lemma analyze_body_agrees:
  "stage_agrees [] (pipeline_outcome L vc env W req) (analyze_body L vc env W req)"
proof (cases "check_credentials L env")
  case (Inl e)
  then show ?thesis
    by (simp add: stage_agrees_def pipeline_outcome_def analyze_body_def steps_through_simps)
next
  case (Inr cs)
  show ?thesis
  proof (cases "google cs \<and> openai cs \<and> vc")
    case True
    with Inr stage_agrees_after [of "[]" CheckingCredentials]
      validating_input_agrees [of L W req]
    show ?thesis by (simp add: pipeline_outcome_def analyze_body_def)
  next
    case False
    with Inr show ?thesis
      by (auto simp: stage_agrees_def pipeline_outcome_def analyze_body_def steps_through_simps
          error_shaped_def)
  qed
qed

lemma analyze_agrees:
  assumes "req_method req \<noteq> ''OPTIONS''"
  shows "snd (analyze L vc env W req) =
           (case pipeline_outcome L vc env W req of
              Inl (f, s) \<Rightarrow> steps_through s
            | Inr ok \<Rightarrow> pipeline_order) \<and>
         (\<exists>r. fst (analyze L vc env W req) = Inr r \<and>
            (case pipeline_outcome L vc env W req of
               Inl (f, s) \<Rightarrow> http_status r = failure_status f \<and> error_shaped (body r)
             | Inr (t, ls) \<Rightarrow> r = success_response t ls))"
  using analyze_body_agrees [of L vc env W req] assms
  by (cases "analyze_body L vc env W req")
     (auto simp: analyze_def stage_agrees_def split: sum.splits prod.splits)

section \<open>Sample runs\<close>

lemma sample_credentials_pass: "credentials_pass sample_lib True env_ok"
  by (simp add: credentials_pass_def check_credentials_def check_google_def check_openai_def
      env_ok_def good_key_def sample_lib_def sample_loads_def service_account_text_def
      initial_status_def required_fields_def add_error_def)

lemma short_key_blocked: "\<not> credentials_pass sample_lib True env_short_key"
  by (simp add: credentials_pass_def check_credentials_def check_google_def check_openai_def
      env_short_key_def sample_lib_def sample_loads_def service_account_text_def
      initial_status_def required_fields_def add_error_def)

lemma req_ok_facts:
  "req_method req_ok \<noteq> ''OPTIONS''"
  "get_json req_ok = Inr (JObj [(''imageUrl'', sample_url)])"
  "truthy (JObj [(''imageUrl'', sample_url)])"
  "py_get (JObj [(''imageUrl'', sample_url)]) ''imageUrl'' = Inr sample_url"
  "truthy sample_url"
  by (simp_all add: req_ok_def sample_url_def)

lemma req_no_url_facts:
  "req_method req_no_url \<noteq> ''OPTIONS''" "no_image_url req_no_url" "rejected_input req_no_url"
  by (simp_all add: req_no_url_def no_image_url_def rejected_input_def)

lemma world_facts:
  "requests_get world_empty_object sample_url = Inr sample_image"
  "label_detection world_empty_object (content sample_image) = Inr sample_labels"
  "chat_create world_empty_object p = Inr [Some ''{}'']"
  "requests_get world_prose sample_url = Inr sample_image"
  "label_detection world_prose (content sample_image) = Inr sample_labels"
  "chat_create world_prose p = Inr [Some ''A blue shirt.'']"
  "resp_ok sample_image"
  by (simp_all add: world_empty_object_def world_prose_def sample_image_def)

lemma world_203_facts:
  "requests_get world_empty_object_203 sample_url =
     Inr \<lparr>resp_ok = True, status_code = 203, content = ''JPEG''\<rparr>"
  "resp_ok \<lparr>resp_ok = True, status_code = 203, content = ''JPEG''\<rparr>"
  "content sample_image = content \<lparr>resp_ok = True, status_code = 203, content = ''JPEG''\<rparr>"
  "label_detection world_empty_object_203 (content sample_image) = Inr sample_labels"
  "chat_create world_empty_object_203 p = Inr [Some ''{}'']"
  by (simp_all add: world_empty_object_203_def sample_image_def)

lemma sample_loads_facts:
  "json_loads sample_lib ''{}'' = Inr (JObj [])"
  "json_loads sample_lib ''A blue shirt.'' = Inl ''Expecting value: line 1 column 1 (char 0)''"
  by (simp_all add: sample_lib_def sample_loads_def service_account_text_def field_list_text_def)

lemma sample_run_empty_object:
  "analyze sample_lib True env_ok world_empty_object req_ok =
     (Inr (success_response ''{}'' sample_labels), pipeline_order)"
proof -
  obtain p where p: "build_prompt sample_lib sample_labels = Inr p"
    using build_prompt_returns by blast
  show ?thesis
    using analyze_reaches_generating [OF req_ok_facts(1) sample_credentials_pass req_ok_facts(2-5)
        world_facts(1) world_facts(7) world_facts(2) p]
      generating_valid_json [OF world_facts(3) sample_loads_facts(1), where p = p and labels = sample_labels]
    by (simp add: after_def pipeline_order_def)
qed

lemma sample_run_203:
  "analyze sample_lib True env_ok world_empty_object_203 req_ok =
     (Inr (success_response ''{}'' sample_labels), pipeline_order)"
proof -
  obtain p where p: "build_prompt sample_lib sample_labels = Inr p"
    using build_prompt_returns by blast
  have l: "label_detection world_empty_object_203
      (content \<lparr>resp_ok = True, status_code = 203, content = ''JPEG''\<rparr>) = Inr sample_labels"
    by (simp add: world_empty_object_203_def)
  show ?thesis
    using analyze_reaches_generating [OF req_ok_facts(1) sample_credentials_pass req_ok_facts(2-5)
        world_203_facts(1) world_203_facts(2) l p]
      generating_valid_json [OF world_203_facts(5) sample_loads_facts(1), where p = p and labels = sample_labels]
    by (simp add: after_def pipeline_order_def)
qed

lemma sample_run_prose:
  "analyze sample_lib True env_ok world_prose req_ok =
     (Inr (error_response 500 ''Invalid JSON response from OpenAI''),
      [CheckingCredentials, ValidatingInput, Downloading, Labeling, Prompting, Generating,
       ValidatingOutput])"
proof -
  obtain p where p: "build_prompt sample_lib sample_labels = Inr p"
    using build_prompt_returns by blast
  show ?thesis
    using analyze_reaches_generating [OF req_ok_facts(1) sample_credentials_pass req_ok_facts(2-5)
        world_facts(4) world_facts(7) world_facts(5) p]
      generating_invalid_json [OF world_facts(6) sample_loads_facts(2),
        where p = p and labels = sample_labels]
    by (simp add: after_def)
qed

lemma sample_check_credentials:
  "check_credentials sample_lib env_ok = Inr \<lparr>google = True, openai = True, errors = []\<rparr>"
  by (simp add: check_credentials_def check_google_def check_openai_def
      env_ok_def good_key_def sample_lib_def sample_loads_def service_account_text_def
      initial_status_def required_fields_def add_error_def)

lemma sample_outcome_vision_down:
  "pipeline_outcome sample_lib True env_ok world_vision_down req_ok = Inl (ServiceError, Labeling)"
  by (simp add: pipeline_outcome_def sample_check_credentials outcome_validating_def
      outcome_downloading_def outcome_labeling_def req_ok_def sample_url_def
      world_vision_down_def sample_image_def)

lemma sample_run_short_key:
  "analyze sample_lib True env_short_key world_empty_object req_no_url =
     (Inr \<lparr>http_status = 500,
           body = JsonBody (JObj [(''error'', JStr ''Credential issues''),
                                  (''details'', JArr [JStr ''Invalid OpenAI API key format''])])\<rparr>,
      [CheckingCredentials])"
  by (simp add: analyze_def analyze_body_def req_no_url_def check_credentials_def
      check_google_def check_openai_def env_short_key_def sample_lib_def sample_loads_def
      service_account_text_def initial_status_def required_fields_def add_error_def)

lemma sample_run_unset:
  "analyze sample_lib True env_unset world_empty_object req_no_url =
     (Inr \<lparr>http_status = 500,
           body = JsonBody (JObj [(''error'', JStr ''Credential issues''),
                                  (''details'', JArr [JStr ''GOOGLE_CREDENTIALS not found in environment'',
                                                      JStr ''OPENAI_API_KEY not found in environment''])])\<rparr>,
      [CheckingCredentials])"
  by (simp add: analyze_def analyze_body_def req_no_url_def check_credentials_def
      check_google_def check_openai_def env_unset_def initial_status_def add_error_def)

section \<open>Properties of \<^verbatim>\<open>/analyze\<close>\<close>

text \<open>
  C1, as amended. When the credential check passes, the body carries a non-empty \<^verbatim>\<open>imageUrl\<close>,
  the download answers with a success status, label detection returns, and the first choice of
  the generator is a text that \<^verbatim>\<open>json.loads\<close> accepts, then \<^verbatim>\<open>/analyze\<close> answers 200 with
  \<^verbatim>\<open>success: true\<close>, the raw generator text as \<^verbatim>\<open>itemSpecifics\<close> and the labels in the
  collaborator's order, after going through every step. The keys of the generated object are
  not looked at.
\<close>

theorem analyze_success:
  assumes "req_method req \<noteq> ''OPTIONS''"
    and "credentials_pass L vision_client env"
    and "get_json req = Inr data" and "truthy data"
    and "py_get data ''imageUrl'' = Inr u" and "truthy u"
    and "requests_get W u = Inr img" and "resp_ok img"
    and "label_detection W (content img) = Inr labels"
    and "build_prompt L labels = Inr p"
    and "chat_create W p = Inr (Some t # cs)"
    and "json_loads L t = Inr j"
  shows "analyze L vision_client env W req =
           (Inr \<lparr>http_status = 200,
                 body = JsonBody (JObj [(''success'', JBool True),
                                        (''itemSpecifics'', JStr t),
                                        (''labels'', JArr (map JStr labels))])\<rparr>,
            pipeline_order)"
  using analyze_reaches_generating [OF assms(1-10)]
    generating_valid_json [OF assms(11,12), of labels]
  by (simp add: after_def success_response_def pipeline_order_def)

theorem analyze_success_witness:
  "analyze sample_lib True env_ok world_empty_object req_ok =
     (Inr \<lparr>http_status = 200,
           body = JsonBody (JObj [(''success'', JBool True),
                                  (''itemSpecifics'', JStr ''{}''),
                                  (''labels'', JArr (map JStr sample_labels))])\<rparr>,
      pipeline_order)"
proof -
  obtain p where p: "build_prompt sample_lib sample_labels = Inr p"
    using build_prompt_returns by blast
  show ?thesis
    by (rule analyze_success [OF req_ok_facts(1) sample_credentials_pass req_ok_facts(2-5)
        world_facts(1) world_facts(7) world_facts(2) p world_facts(3) sample_loads_facts(1)])
qed

text \<open>
  C1 as stated fails: the generator answers \<^verbatim>\<open>{}\<close>, everything else succeeds, and the handler
  returns the success body although the parsed \<^verbatim>\<open>itemSpecifics\<close> has none of the six keys.
\<close>

theorem analyze_accepts_empty_object:
  "fst (analyze sample_lib True env_ok world_empty_object req_ok) =
     Inr (success_response ''{}'' sample_labels) \<and>
   json_loads sample_lib ''{}'' = Inr (JObj []) \<and>
   \<not> has_exactly_keys (JObj []) required_keys"
  by (simp add: sample_run_empty_object sample_loads_facts has_exactly_keys_def required_keys_def)

text \<open>
  C2, as amended. A request without a usable \<^verbatim>\<open>imageUrl\<close> (unparsable body, empty body, no
  or empty \<^verbatim>\<open>imageUrl\<close>) never reaches the download, label detection or the generator, whatever
  the credentials are. It is answered with 400 when the credential check passes and
  \<^verbatim>\<open>get_json\<close> returned an empty value or an object without a non-empty \<^verbatim>\<open>imageUrl\<close>, and with
  500 when the credential check fails, which comes first.
\<close>

theorem analyze_no_image_url:
  assumes "req_method req \<noteq> ''OPTIONS''" and "no_image_url req"
  shows "Downloading \<notin> set (snd (analyze L vision_client env W req)) \<and>
         Labeling \<notin> set (snd (analyze L vision_client env W req)) \<and>
         Generating \<notin> set (snd (analyze L vision_client env W req)) \<and>
         (credentials_pass L vision_client env \<and> rejected_input req \<longrightarrow>
            (\<exists>r. fst (analyze L vision_client env W req) = Inr r \<and> http_status r = 400)) \<and>
         (\<not> credentials_pass L vision_client env \<longrightarrow>
            (\<exists>r. fst (analyze L vision_client env W req) = Inr r \<and> http_status r = 500))"
proof (cases "credentials_pass L vision_client env")
  case True
  have a: "analyze L vision_client env W req =
      (case after [CheckingCredentials] (validating_input L W req) of
         (Inl e, steps) \<Rightarrow> (Inr (error_response 500 (exn_str e)), steps)
       | (Inr r, steps) \<Rightarrow> (Inr r, steps))"
    using assms(1) by (simp add: analyze_def analyze_body_pass [OF True])
  have s: "snd (analyze L vision_client env W req) = [CheckingCredentials, ValidatingInput]"
    using validating_input_no_url [OF assms(2), of L W]
    by (simp add: a after_def split: prod.splits sum.splits)
  have r: "\<exists>r. fst (analyze L vision_client env W req) = Inr r \<and> http_status r = 400"
    if "rejected_input req"
    using validating_input_rejected [OF that, of L W]
    by (auto simp: a after_def split: prod.splits sum.splits)
  from True s r show ?thesis by simp
next
  case False
  from analyze_body_blocked [OF False, of W req] assms(1) show ?thesis
    using False
    by (cases "analyze_body L vision_client env W req")
       (auto simp: analyze_def split: sum.splits)
qed

theorem analyze_no_image_url_witness:
  "req_method req_no_url \<noteq> ''OPTIONS'' \<and> no_image_url req_no_url \<and>
   credentials_pass sample_lib True env_ok \<and> rejected_input req_no_url \<and>
   Downloading \<notin> set (snd (analyze sample_lib True env_ok world_empty_object req_no_url)) \<and>
   (\<exists>r. fst (analyze sample_lib True env_ok world_empty_object req_no_url) = Inr r \<and>
      http_status r = 400)"
  using req_no_url_facts sample_credentials_pass
    analyze_no_image_url [OF req_no_url_facts(1,2), of sample_lib True env_ok world_empty_object]
  by simp

text \<open>
  C2 as stated fails: with an API key of the wrong format, a body without \<^verbatim>\<open>imageUrl\<close> is
  answered with 500 and the credential errors, not with 400.
\<close>

theorem analyze_missing_url_bad_key:
  "rejected_input req_no_url \<and>
   fst (analyze sample_lib True env_short_key world_empty_object req_no_url) =
     Inr \<lparr>http_status = 500,
          body = JsonBody (JObj [(''error'', JStr ''Credential issues''),
                                 (''details'', JArr [JStr ''Invalid OpenAI API key format''])])\<rparr>"
  by (simp add: sample_run_short_key req_no_url_facts)

text \<open>
  C3, as amended. The steps run in the order of \<open>pipeline_order\<close>, the credential check first
  and the input validation second. A run whose first failure is at step \<open>s\<close> enters the steps up
  to \<open>s\<close> and no later one; a run without failure enters all of them. So the log is a beginning
  of \<open>pipeline_order\<close>, and the whole of it exactly when the answer is 200.
\<close>

theorem analyze_step_order:
  assumes "req_method req \<noteq> ''OPTIONS''"
  shows "prefix (snd (analyze L vision_client env W req)) pipeline_order \<and>
         ((\<exists>r. fst (analyze L vision_client env W req) = Inr r \<and> http_status r = 200)
            \<longleftrightarrow> snd (analyze L vision_client env W req) = pipeline_order) \<and>
         snd (analyze L vision_client env W req) =
           (case pipeline_outcome L vision_client env W req of
              Inl (f, s) \<Rightarrow> steps_through s
            | Inr ok \<Rightarrow> pipeline_order)"
proof -
  have old: "prefix (snd (analyze L vision_client env W req)) pipeline_order \<and>
         ((\<exists>r. fst (analyze L vision_client env W req) = Inr r \<and> http_status r = 200)
            \<longleftrightarrow> snd (analyze L vision_client env W req) = pipeline_order)"
  proof (cases "analyze_body L vision_client env W req")
    case (Pair res steps)
    with analyze_body_conforms [of L vision_client env W req]
    have c: "run_conforms pipeline_order (res, steps)" by simp
    show ?thesis
    proof (cases res)
      case (Inl e)
      with Pair assms c show ?thesis by (auto simp: analyze_def run_conforms_def)
    next
      case (Inr r)
      with Pair assms c show ?thesis by (auto simp: analyze_def run_conforms_def)
    qed
  qed
  with analyze_agrees [OF assms, of L vision_client env W] show ?thesis by blast
qed

theorem analyze_step_order_witness:
  "req_method req_ok \<noteq> ''OPTIONS'' \<and>
   pipeline_outcome sample_lib True env_ok world_vision_down req_ok = Inl (ServiceError, Labeling) \<and>
   snd (analyze sample_lib True env_ok world_vision_down req_ok) =
     [CheckingCredentials, ValidatingInput, Downloading, Labeling] \<and>
   prefix (snd (analyze sample_lib True env_ok world_vision_down req_ok)) pipeline_order \<and>
   snd (analyze sample_lib True env_ok world_vision_down req_ok) \<noteq> pipeline_order"
  using req_ok_facts(1)
    analyze_step_order [OF req_ok_facts(1), of sample_lib True env_ok world_vision_down]
  by (simp add: sample_outcome_vision_down steps_through_simps pipeline_order_def)

text \<open>
  C3 as stated fails: for a body without \<^verbatim>\<open>imageUrl\<close> and no credentials in the environment
  the only step is the credential check; the input validation, which the claim puts first, is
  never entered.
\<close>

theorem analyze_checks_credentials_first:
  "rejected_input req_no_url \<and>
   snd (analyze sample_lib True env_unset world_empty_object req_no_url) = [CheckingCredentials] \<and>
   ValidatingInput \<notin> set (snd (analyze sample_lib True env_unset world_empty_object req_no_url))"
  by (simp add: sample_run_unset req_no_url_facts)

text \<open>
  C4. When a request gets as far as the generator and the generator's first choice is a text
  that \<^verbatim>\<open>json.loads\<close> rejects, \<^verbatim>\<open>/analyze\<close> answers 500 with one key, \<^verbatim>\<open>error\<close>, whose message
  starts with \<^verbatim>\<open>Invalid JSON response\<close>; there is no \<^verbatim>\<open>itemSpecifics\<close> in the body.
\<close>

theorem analyze_invalid_json:
  assumes "req_method req \<noteq> ''OPTIONS''"
    and "credentials_pass L vision_client env"
    and "get_json req = Inr data" and "truthy data"
    and "py_get data ''imageUrl'' = Inr u" and "truthy u"
    and "requests_get W u = Inr img" and "resp_ok img"
    and "label_detection W (content img) = Inr labels"
    and "build_prompt L labels = Inr p"
    and "chat_create W p = Inr (Some t # cs)"
    and "json_loads L t = Inl msg"
  shows "\<exists>r m. fst (analyze L vision_client env W req) = Inr r \<and>
           http_status r = 500 \<and>
           body r = JsonBody (JObj [(''error'', JStr m)]) \<and>
           prefix ''Invalid JSON response'' m \<and>
           ''itemSpecifics'' \<notin> set (body_keys (body r))"
proof -
  have "fst (analyze L vision_client env W req) =
          Inr (error_response 500 ''Invalid JSON response from OpenAI'')"
    using analyze_reaches_generating [OF assms(1-10)]
      generating_invalid_json [OF assms(11,12), of labels]
    by simp
  then show ?thesis
    by (simp add: error_response_def body_keys_def)
qed

theorem analyze_invalid_json_witness:
  "\<exists>r m. fst (analyze sample_lib True env_ok world_prose req_ok) = Inr r \<and>
     http_status r = 500 \<and>
     body r = JsonBody (JObj [(''error'', JStr m)]) \<and>
     prefix ''Invalid JSON response'' m \<and>
     ''itemSpecifics'' \<notin> set (body_keys (body r))"
proof -
  obtain p where p: "build_prompt sample_lib sample_labels = Inr p"
    using build_prompt_returns by blast
  show ?thesis
    by (rule analyze_invalid_json [OF req_ok_facts(1) sample_credentials_pass req_ok_facts(2-5)
        world_facts(4) world_facts(7) world_facts(5) p world_facts(6) sample_loads_facts(2)])
qed



text \<open>
  C8. Two runs of the same request under the same configuration, against collaborators that
  return the same image bytes, the same labels and the same first choice, have the same body
  when both succeed, with the labels in the collaborator's order. The two worlds may differ in
  everything else, as in the status code of the download.
\<close>

theorem analyze_idempotent:
  assumes "req_method req \<noteq> ''OPTIONS''"
    and "get_json req = Inr data" and "py_get data ''imageUrl'' = Inr u"
    and "requests_get W1 u = Inr img1" and "requests_get W2 u = Inr img2"
    and "content img1 = content img2"
    and "label_detection W1 (content img1) = Inr labels"
    and "label_detection W2 (content img1) = Inr labels"
    and "build_prompt L labels = Inr p"
    and "chat_create W1 p = Inr (c # cs1)" and "chat_create W2 p = Inr (c # cs2)"
    and "fst (analyze L vision_client env W1 req) = Inr r1" and "http_status r1 = 200"
    and "fst (analyze L vision_client env W2 req) = Inr r2" and "http_status r2 = 200"
  shows "body r1 = body r2 \<and>
         (\<exists>t. body r1 = JsonBody (JObj [(''success'', JBool True),
                                         (''itemSpecifics'', JStr t),
                                         (''labels'', JArr (map JStr labels))]))"
proof -
  from assms(6,8) have l2: "label_detection W2 (content img2) = Inr labels" by simp
  from analyze_ok_inversion [OF assms(1) assms(12,13) assms(2,3) assms(4) assms(7) assms(9) assms(10)]
  obtain t1 where 1: "c = Some t1" "r1 = success_response t1 labels" by blast
  from analyze_ok_inversion [OF assms(1) assms(14,15) assms(2,3) assms(5) l2 assms(9) assms(11)]
  obtain t2 where 2: "c = Some t2" "r2 = success_response t2 labels" by blast
  from 1 2 show ?thesis by (auto simp: success_response_def)
qed

theorem analyze_idempotent_witness:
  "\<exists>r1 r2. fst (analyze sample_lib True env_ok world_empty_object req_ok) = Inr r1 \<and>
     fst (analyze sample_lib True env_ok world_empty_object_203 req_ok) = Inr r2 \<and>
     http_status r1 = 200 \<and> http_status r2 = 200 \<and> body r1 = body r2 \<and>
     body r1 = JsonBody (JObj [(''success'', JBool True),
                               (''itemSpecifics'', JStr ''{}''),
                               (''labels'', JArr (map JStr sample_labels))])"
proof -
  obtain p where p: "build_prompt sample_lib sample_labels = Inr p"
    using build_prompt_returns by blast
  have r1: "fst (analyze sample_lib True env_ok world_empty_object req_ok) =
      Inr (success_response ''{}'' sample_labels)"
    by (simp add: sample_run_empty_object)
  have r2: "fst (analyze sample_lib True env_ok world_empty_object_203 req_ok) =
      Inr (success_response ''{}'' sample_labels)"
    by (simp add: sample_run_203)
  have s: "http_status (success_response ''{}'' sample_labels) = 200" by simp
  from analyze_idempotent [OF req_ok_facts(1) req_ok_facts(2) req_ok_facts(4)
      world_facts(1) world_203_facts(1) world_203_facts(3) world_facts(2) world_203_facts(4) p
      world_facts(3) world_203_facts(5) r1 s r2 s]
  show ?thesis using r1 r2 by (simp add: success_response_def)
qed

section \<open>Properties of \<^verbatim>\<open>/status\<close>\<close>

text \<open>
  Where the credential blob is absent, empty, unparsable or a JSON object that lacks a required
  key, \<^verbatim>\<open>check_credentials\<close> returns with \<^verbatim>\<open>google\<close> false, and \<^verbatim>\<open>/analyze\<close> stops at the
  credential check.
\<close>

lemma missing_fields_object:
  "missing_fields (JObj kvs) fs = Inr (filter (\<lambda>f. f \<notin> set (map fst kvs)) fs)"
  by (induction fs) simp_all

lemma filter_empty_subset: "filter (\<lambda>f. f \<notin> A) fs = [] \<longleftrightarrow> set fs \<subseteq> A"
  by (induction fs) auto

lemma check_google_object:
  assumes "GOOGLE_CREDENTIALS env = Some s" and "s \<noteq> []" and "json_loads L s = Inr (JObj kvs)"
  shows "\<exists>st'. check_google L env st = Inr st' \<and>
           google st' = (google st \<or> has_required_fields (JObj kvs))"
  using assms
  by (auto simp: check_google_def missing_fields_object filter_empty_subset has_required_fields_def
      add_error_def)

lemma check_openai_google [simp]: "google (check_openai env st) = google st"
  by (simp add: check_openai_def add_error_def split: option.splits)

lemma google_flag_false_on_objects:
  assumes "google_credentials_bad L env"
    and "\<And>s j. GOOGLE_CREDENTIALS env = Some s \<Longrightarrow> json_loads L s = Inr j \<Longrightarrow> \<exists>kvs. j = JObj kvs"
  shows "\<exists>st. check_credentials L env = Inr st \<and> \<not> google st"
proof (cases "GOOGLE_CREDENTIALS env")
  case None
  then show ?thesis
    by (simp add: check_credentials_def check_google_def add_error_def initial_status_def)
next
  case (Some s)
  show ?thesis
  proof (cases "s = []")
    case True
    with Some show ?thesis
      by (simp add: check_credentials_def check_google_def add_error_def initial_status_def)
  next
    case False
    show ?thesis
    proof (cases "json_loads L s")
      case (Inl msg)
      with Some False show ?thesis
        by (simp add: check_credentials_def check_google_def add_error_def initial_status_def)
    next
      case (Inr j)
      with assms(2) Some obtain kvs where j: "j = JObj kvs" by blast
      from assms(1) Some False Inr j have "\<not> has_required_fields (JObj kvs)"
        by (simp add: google_credentials_bad_def)
      with check_google_object [OF Some False, of L kvs initial_status] Inr j
      show ?thesis
        by (auto simp: check_credentials_def initial_status_def)
    qed
  qed
qed

lemma google_false_blocks:
  "check_credentials L env = Inr st \<Longrightarrow> \<not> google st \<Longrightarrow> \<not> credentials_pass L vc env"
  by (simp add: credentials_pass_def)

text \<open>
  C6 fails on a blob that parses to something other than an object. The membership test of
  line 70 is applied to whatever \<^verbatim>\<open>json.loads\<close> returns: on the JSON array of the four field
  names every test succeeds, and \<^verbatim>\<open>/status\<close> reports \<^verbatim>\<open>google: true\<close> for a blob that has no
  key at all.
\<close>

theorem status_field_list_google_true:
  "google_credentials_bad sample_lib env_field_list \<and>
   status sample_lib env_field_list sample_time =
     Inr \<lparr>http_status = 200,
          body = JsonBody (JObj
            [(''server'', JStr ''running''),
             (''credentials'', JObj [(''google'', JBool True),
                                     (''openai'', JBool True),
                                     (''errors'', JArr [])]),
             (''time'', JStr sample_time)])\<rparr>"
  by (simp add: google_credentials_bad_def has_required_fields_def status_def
      check_credentials_def check_google_def check_openai_def env_field_list_def good_key_def
      sample_lib_def sample_loads_def service_account_text_def field_list_text_def
      initial_status_def required_fields_def add_error_def)

text \<open>
  On a JSON number the membership test raises a \<^verbatim>\<open>TypeError\<close>, which nothing in
  \<^verbatim>\<open>check_credentials\<close> or \<^verbatim>\<open>status\<close> catches.
\<close>

lemma status_number_raises:
  "google_credentials_bad sample_lib env_number \<and>
   status sample_lib env_number sample_time =
     Inl (Exn OtherException (''argument of type '' @ [CHR 0x27] @ ''int'' @ [CHR 0x27] @ '' is not iterable''))"
  by (simp add: google_credentials_bad_def has_required_fields_def status_def
      check_credentials_def check_google_def env_number_def
      sample_lib_def sample_loads_def service_account_text_def field_list_text_def
      initial_status_def required_fields_def)

end
